theory Spec2Isabelle
  imports Complex_Main "HOL-Library.Monad_Syntax"
begin

section \<open>The Burgers environment of controlgym (controlgym/envs/burgers.py)\<close>

text \<open>
  The source is a Python class \<open>BurgersEnv(PDE)\<close> computing with numpy arrays of
  64-bit floats and complex numbers. The embedding reads a float as a \<open>real\<close> and a
  complex float as a \<open>complex\<close>: every theorem below is about exact arithmetic, and says
  nothing about rounding, overflow, infinities or NaN. A one-dimensional array is a
  list; a raised \<open>ValueError\<close> of numpy is the result \<open>None\<close>.
\<close>

subsection \<open>Data model\<close>

text \<open>
  A two-dimensional numpy array: its rows, and its number of columns (which a list of
  rows alone does not determine when there are no rows). The number of rows is
  \<open>length (rows M)\<close>.
\<close>

record 'a mat =
  ncols :: nat
  rows :: "'a list list"

definition is_mat :: "nat \<Rightarrow> nat \<Rightarrow> 'a mat \<Rightarrow> bool" where
  "is_mat r c M = (length (rows M) = r \<and> ncols M = c \<and> list_all (\<lambda>row. length row = c) (rows M))"

text \<open>
  The attributes that \<open>PDE.__init__\<close> (the base class, in controlgym/envs/pde.py) leaves
  on the object and that burgers.py reads. The base class sets more; the record is
  extensible and burgers.py touches none of the others. \<open>n_state\<close> is a dimension, a
  natural number: with a negative one \<open>np.random.rand\<close> and \<open>np.fft.irfft\<close> raise.
\<close>

record pde =
  n_state :: nat
  domain_length :: real
  domain_coordinates :: "real list"
  domain_wavenumbers :: "complex list"
  target_state :: "real list"

text \<open>The attributes that \<open>BurgersEnv.__init__\<close> adds, in the order it assigns them.\<close>

record BurgersEnv = pde +
  init_state :: "real list"
  state :: "real list"
  diffusivity_constant :: real
  control_sup :: "real mat"
  C :: "real mat"
  C_target_state :: "real list"

subsection \<open>The linear operator\<close>

text \<open>
  \<^verbatim>\<open>fourier_linear_op = -self.diffusivity_constant * self.domain_wavenumbers**2\<close>

  Python reads this as \<open>(-d) * (k ** 2)\<close>, a float scalar times an array, element by
  element.
\<close>

definition compute_fourier_linear_op :: "'z BurgersEnv_scheme \<Rightarrow> complex list" where
  "compute_fourier_linear_op self =
     map (\<lambda>k. complex_of_real (- diffusivity_constant self) * k ^ 2) (domain_wavenumbers self)"

subsection \<open>numpy operations used by the constructor\<close>

text \<open>
  \<open>M @ v\<close> for a two-dimensional \<open>M\<close> and a one-dimensional \<open>v\<close>: numpy raises
  \<open>ValueError\<close> unless the number of columns of \<open>M\<close> is the length of \<open>v\<close>.
\<close>

definition np_matvec :: "('a::semiring_0) mat \<Rightarrow> 'a list \<Rightarrow> 'a list option" where
  "np_matvec M v =
     (if ncols M = length v
      then Some (map (\<lambda>row. \<Sum>i<length v. row ! i * v ! i) (rows M))
      else None)"

text \<open>
  The state of numpy's global generator is the sequence of the samples it is still to
  produce; \<open>np.random.rand(n)\<close> returns the next \<open>n\<close> of them and advances the
  generator. numpy documents the samples as drawn from \<open>[0, 1)\<close>: \<open>rng_ok\<close>.
\<close>

type_synonym rng = "nat \<Rightarrow> real"

definition np_random_rand :: "nat \<Rightarrow> rng \<Rightarrow> real list \<times> rng" where
  "np_random_rand n g = (map g [0..<n], (\<lambda>i. g (i + n)))"

definition rng_ok :: "rng \<Rightarrow> bool" where
  "rng_ok g = (\<forall>i. 0 \<le> g i \<and> g i < 1)"

subsection \<open>The constructor\<close>

text \<open>
  \<open>BurgersEnv.__init__\<close>, after its call of \<open>PDE.__init__\<close>. The base class is not
  among the sources, so what it leaves behind is taken as given: \<open>base\<close> is the object
  after \<open>PDE.__init__\<close>, \<open>g\<close> the state of the global generator at that moment, and
  \<open>compute_control_sup\<close>, \<open>compute_C\<close> are the base class's two matrix builders.
  \<open>init_state_arg\<close>, \<open>diffusivity_constant_arg\<close> and \<open>n_state_arg\<close> are the
  constructor's arguments of those names; \<open>None\<close> for \<open>init_state_arg\<close> is Python's
  \<open>None\<close>. The result \<open>None\<close> is the \<open>ValueError\<close> of \<open>self.C @ self.target_state\<close>.

  \<^verbatim>\<open>
  if init_state is not None:
      self.init_state = init_state
  else:
      self.init_state = np.cosh(
          10 * (self.domain_coordinates - 1 * self.domain_length / 2)
      ) ** (-1)
      # NOTE(random reset)
      self.init_state = 2 * np.random.rand(n_state) - 1
  self.state = self.init_state
  self.diffusivity_constant = diffusivity_constant
  self.control_sup = self._compute_control_sup()
  self.C = self._compute_C()
  self.C_target_state = self.C @ self.target_state
  \<close>
\<close>

text \<open>
  The first assignment of the \<open>else\<close> branch, the default that the class's docstring
  documents:
  \<^verbatim>\<open>np.cosh(10 * (self.domain_coordinates - 1 * self.domain_length / 2)) ** (-1)\<close>
\<close>

definition pulse_init_state :: "'z pde_scheme \<Rightarrow> real list" where
  "pulse_init_state self =
     map (\<lambda>x. cosh (10 * (x - 1 * domain_length self / 2)) powr (- 1)) (domain_coordinates self)"

definition BurgersEnv_init ::
  "pde \<Rightarrow> (pde \<Rightarrow> real mat) \<Rightarrow> (pde \<Rightarrow> real mat) \<Rightarrow>
   real list option \<Rightarrow> real \<Rightarrow> nat \<Rightarrow> rng \<Rightarrow> (BurgersEnv \<times> rng) option" where
  "BurgersEnv_init base compute_control_sup compute_C
     init_state_arg diffusivity_constant_arg n_state_arg g =
     (let (self_init_state, g') =
            (case init_state_arg of
               Some x \<Rightarrow> (x, g)
             | None \<Rightarrow>
                 (let self_init_state = pulse_init_state base;
                      (u, g') = np_random_rand n_state_arg g;
                      self_init_state = map (\<lambda>r. 2 * r - 1) u
                  in (self_init_state, g')));
          self_state = self_init_state;
          self_diffusivity_constant = diffusivity_constant_arg;
          self_control_sup = compute_control_sup base;
          self_C = compute_C base
      in case np_matvec self_C (target_state base) of
           None \<Rightarrow> None
         | Some self_C_target_state \<Rightarrow>
             Some (pde.extend base
                     (BurgersEnv.fields self_init_state self_state self_diffusivity_constant
                        self_control_sup self_C self_C_target_state),
                   g'))"


subsection \<open>The parameter dictionary\<close>

text \<open>
  The values a parameter dictionary holds, and the dictionary as a map from keys.

  \<^verbatim>\<open>
  pde_dict = super().get_params_asdict()
  extra_data = {"diffusivity_constant": self.diffusivity_constant}
  return {**pde_dict, **extra_data}
  \<close>

  \<open>super_get_params_asdict\<close> is the base class's method, not among the sources. In
  \<open>{**a, **b}\<close> an entry of \<open>b\<close> replaces an entry of \<open>a\<close> with the same key: \<open>a ++ b\<close>.
\<close>

datatype py_value = PyNone | PyStr string | PyInt int | PyFloat real | PyArray "real list"

type_synonym py_dict = "string \<rightharpoonup> py_value"

definition get_params_asdict ::
  "('z BurgersEnv_scheme \<Rightarrow> py_dict) \<Rightarrow> 'z BurgersEnv_scheme \<Rightarrow> py_dict" where
  "get_params_asdict super_get_params_asdict self =
     (let pde_dict = super_get_params_asdict self;
          extra_data = [''diffusivity_constant'' \<mapsto> PyFloat (diffusivity_constant self)]
      in pde_dict ++ extra_data)"

subsection \<open>numpy's real Fourier transforms and array arithmetic\<close>

text \<open>
  \<open>np.fft.rfft(x)\<close> of a real array of length \<open>n\<close>: the \<open>n div 2 + 1\<close> coefficients
  \<open>\<Sum>j<n. x[j] exp(-2\<pi>i j k / n)\<close> of the non-negative frequencies. numpy raises
  \<open>ValueError\<close> for an empty array.
\<close>

definition rfft_values :: "real list \<Rightarrow> complex list" where
  "rfft_values x =
     map (\<lambda>k. \<Sum>j<length x.
            complex_of_real (x ! j) * cis (- (2 * pi * real j * real k / real (length x))))
       [0..<length x div 2 + 1]"

definition np_fft_rfft :: "real list \<Rightarrow> complex list option" where
  "np_fft_rfft x = (if length x < 1 then None else Some (rfft_values x))"

text \<open>
  \<open>np.fft.irfft(a, n)\<close>: the real signal of length \<open>n\<close> whose \<open>rfft\<close> is \<open>a\<close>. Of the
  input it uses the coefficients \<open>0 .. n div 2\<close>, reading a missing one as zero
  (\<open>fourier_coeff\<close>), and it ignores the imaginary part of coefficient 0 and, for even
  \<open>n\<close>, of coefficient \<open>n div 2\<close>. numpy raises \<open>ValueError\<close> for \<open>n < 1\<close>.
\<close>

definition fourier_coeff :: "complex list \<Rightarrow> nat \<Rightarrow> complex" where
  "fourier_coeff a k = (if k < length a then a ! k else 0)"

definition irfft_values :: "complex list \<Rightarrow> nat \<Rightarrow> real list" where
  "irfft_values a n =
     map (\<lambda>j. (Re (fourier_coeff a 0)
               + (\<Sum>k = 1..(n - 1) div 2.
                    2 * Re (fourier_coeff a k * cis (2 * pi * real j * real k / real n)))
               + (if even n then Re (fourier_coeff a (n div 2)) * (- 1) ^ j else 0))
              / real n)
       [0..<n]"

definition np_fft_irfft :: "complex list \<Rightarrow> nat \<Rightarrow> real list option" where
  "np_fft_irfft a n = (if n < 1 then None else Some (irfft_values a n))"

text \<open>
  \<open>np.fft.rfft(M, axis=0)\<close> transforms every column of \<open>M\<close>: row \<open>k\<close> of the result holds
  coefficient \<open>k\<close> of each column.
\<close>

definition column :: "'a mat \<Rightarrow> nat \<Rightarrow> 'a list" where
  "column M c = map (\<lambda>row. row ! c) (rows M)"

definition np_fft_rfft_axis0 :: "real mat \<Rightarrow> complex mat option" where
  "np_fft_rfft_axis0 M =
     (if length (rows M) < 1 then None
      else Some \<lparr>ncols = ncols M,
                 rows = map (\<lambda>k. map (\<lambda>c. rfft_values (column M c) ! k) [0..<ncols M])
                          [0..<length (rows M) div 2 + 1]\<rparr>)"

text \<open>
  An arithmetic operator between two one-dimensional arrays works element by element;
  an array of length 1 is stretched to the length of the other one, and any other
  difference of the lengths raises \<open>ValueError\<close>.
\<close>

definition np_broadcast :: "('a \<Rightarrow> 'b \<Rightarrow> 'c) \<Rightarrow> 'a list \<Rightarrow> 'b list \<Rightarrow> 'c list option" where
  "np_broadcast f xs ys =
     (if length xs = length ys then Some (map2 f xs ys)
      else if length xs = 1 then Some (map (\<lambda>y. f (hd xs) y) ys)
      else if length ys = 1 then Some (map (\<lambda>x. f x (hd ys)) xs)
      else None)"

subsection \<open>The nonlinear operator\<close>

text \<open>
  The function that \<open>_compute_fourier_nonlinear_op\<close> returns; it closes over \<open>self\<close>.

  \<^verbatim>\<open>
  def fourier_nonlinear_op(state_fourier, action):
      aa_factor = 3 / 2
      aa_state = aa_factor * np.fft.irfft(
          state_fourier, n=int(self.n_state * aa_factor)
      )
      right_hand_side = (
          -0.5j
          * self.domain_wavenumbers
          * (1 / aa_factor)
          * np.fft.rfft(aa_state**2)[0 : int(self.n_state / 2) + 1]
      ) + (np.fft.rfft(self.control_sup, axis=0) @ action)
      return right_hand_side
  \<close>

  \<open>int\<close> of a non-negative float is its floor. The product is read from the left:
  \<open>((-0.5j * k) * (1 / aa_factor)) * rfft(...)[...]\<close>; the first two factors are
  scalars times an array, the last product and the sum are between arrays. The real
  \<open>action\<close> is promoted to complex by the matrix product.
\<close>

definition aa_factor :: real where
  "aa_factor = 3 / 2"

definition fourier_nonlinear_op ::
  "'z BurgersEnv_scheme \<Rightarrow> complex list \<Rightarrow> real list \<Rightarrow> complex list option" where
  "fourier_nonlinear_op self state_fourier action =
     do {
       physical \<leftarrow> np_fft_irfft state_fourier (nat \<lfloor>real (n_state self) * aa_factor\<rfloor>);
       let aa_state = map (\<lambda>v. aa_factor * v) physical;
       squared_fourier \<leftarrow> np_fft_rfft (map (\<lambda>v. v ^ 2) aa_state);
       let factor = map (\<lambda>k. (- (0.5 * \<i>) * k) * complex_of_real (1 / aa_factor))
                      (domain_wavenumbers self);
       advection \<leftarrow> np_broadcast (*) factor
                      (take (nat \<lfloor>real (n_state self) / 2\<rfloor> + 1) squared_fourier);
       control_sup_fourier \<leftarrow> np_fft_rfft_axis0 (control_sup self);
       forcing \<leftarrow> np_matvec control_sup_fourier (map complex_of_real action);
       np_broadcast (+) advection forcing
     }"

subsection \<open>The nonlinear operator as the specification describes it\<close>

text \<open>
  The advection term in the specification's steps: inverse transform of the spectral
  state onto the oversampled grid of \<open>int(3/2 n_state)\<close> points, scaled by \<open>3/2\<close>;
  element-wise square; forward transform on the oversampled grid; truncation to the
  first \<open>n_state div 2 + 1\<close> modes; rescaling by \<open>1 / (3/2)\<close>; element-wise product with
  \<open>-0.5j\<close> times the wavenumber.
\<close>

definition spec_advection :: "nat \<Rightarrow> complex list \<Rightarrow> complex list \<Rightarrow> complex list" where
  "spec_advection n wavenumber s =
     (let grid = nat \<lfloor>3 / 2 * real n\<rfloor>;
          oversampled = map (\<lambda>x. 3 / 2 * x) (irfft_values s grid);
          squared = map (\<lambda>x. x * x) oversampled;
          transformed = rfft_values squared;
          truncated = take (n div 2 + 1) transformed;
          rescaled = map (\<lambda>z. z / complex_of_real (3 / 2)) truncated
      in map2 (\<lambda>k z. (- (1 / 2) * \<i> * k) * z) wavenumber rescaled)"

text \<open>
  The control-forcing term: the spectral transform of each column of the control
  support matrix, multiplied by the action vector.
\<close>

definition spec_control_forcing :: "real mat \<Rightarrow> real list \<Rightarrow> complex list" where
  "spec_control_forcing B a =
     (let transformed_columns = map (\<lambda>c. rfft_values (column B c)) [0..<ncols B]
      in map (\<lambda>k. \<Sum>c<ncols B. transformed_columns ! c ! k * complex_of_real (a ! c))
           [0..<length (rows B) div 2 + 1])"

definition spec_nonlinear_op ::
  "nat \<Rightarrow> complex list \<Rightarrow> real mat \<Rightarrow> complex list \<Rightarrow> real list \<Rightarrow> complex list" where
  "spec_nonlinear_op n wavenumber B s a =
     map2 (+) (spec_advection n wavenumber s) (spec_control_forcing B a)"

subsection \<open>A small concrete environment\<close>

text \<open>
  Four grid points on a domain of length 1, wavenumbers \<open>2\<pi>k\<close> for \<open>k = 0, 1, 2\<close>, two
  actuators and one sensor. It is the input at which the theorems below are
  instantiated.
\<close>

definition example_pde :: pde where
  "example_pde =
     \<lparr>n_state = 4, domain_length = 1, domain_coordinates = [0, 1/4, 1/2, 3/4],
      domain_wavenumbers = [0, complex_of_real (2 * pi), complex_of_real (4 * pi)],
      target_state = [0, 0, 0, 0]\<rparr>"

definition example_control_sup :: "real mat" where
  "example_control_sup = \<lparr>ncols = 2, rows = [[1, 0], [1, 0], [0, 1], [0, 1]]\<rparr>"

definition example_C :: "real mat" where
  "example_C = \<lparr>ncols = 4, rows = [[0, 1, 0, 0]]\<rparr>"

definition example_env :: BurgersEnv where
  "example_env =
     pde.extend example_pde
       (BurgersEnv.fields [1, 0, -1, 0] [1, 0, -1, 0] (1/1000) example_control_sup example_C [0])"

definition example_rng :: rng where
  "example_rng = (\<lambda>i. 1 / (real i + 2))"

definition example_pde_dict :: py_dict where
  "example_pde_dict = [''id'' \<mapsto> PyStr ''burgers'', ''n_state'' \<mapsto> PyInt 4]"

section \<open>Properties\<close>

text \<open>
  C4. For every wavenumber vector and every diffusivity constant, the linear operator
  has the length of the wavenumber vector and its entry \<open>i\<close> is
  \<open>- diffusivity_constant * wavenumber[i]\<^sup>2\<close>; the result is a function of these two
  attributes alone (two objects that agree on them give the same operator).
\<close>

theorem linear_op_entries:
  "length (compute_fourier_linear_op self) = length (domain_wavenumbers self) \<and>
   (\<forall>i < length (domain_wavenumbers self).
      compute_fourier_linear_op self ! i =
        - complex_of_real (diffusivity_constant self) * (domain_wavenumbers self ! i) ^ 2) \<and>
   (\<forall>other :: 'z BurgersEnv_scheme.
      diffusivity_constant other = diffusivity_constant self \<longrightarrow>
      domain_wavenumbers other = domain_wavenumbers self \<longrightarrow>
      compute_fourier_linear_op other = compute_fourier_linear_op self)"
  by (simp add: compute_fourier_linear_op_def)

lemma example_env_sel:
  "domain_wavenumbers example_env = [0, complex_of_real (2 * pi), complex_of_real (4 * pi)]"
  "diffusivity_constant example_env = 1/1000"
  "n_state example_env = 4"
  "control_sup example_env = example_control_sup"
  by (simp_all add: example_env_def example_pde_def pde.defs BurgersEnv.defs)

theorem linear_op_entries_witness:
  "length (compute_fourier_linear_op example_env) = 3 \<and>
   compute_fourier_linear_op example_env ! 1 = - complex_of_real (1/1000) * (complex_of_real (2 * pi)) ^ 2 \<and>
   compute_fourier_linear_op (example_env\<lparr>state := [5, 5, 5, 5]\<rparr>) = compute_fourier_linear_op example_env"
proof -
  note inst = linear_op_entries [of example_env]
  from inst have "length (compute_fourier_linear_op example_env) = length (domain_wavenumbers example_env)"
    by (rule conjunct1)
  then have len: "length (compute_fourier_linear_op example_env) = 3"
    by (simp add: example_env_sel)
  have "1 < length (domain_wavenumbers example_env)"
    by (simp add: example_env_sel)
  with inst have "compute_fourier_linear_op example_env ! 1 =
      - complex_of_real (diffusivity_constant example_env) * (domain_wavenumbers example_env ! 1) ^ 2"
    by blast
  then have entry: "compute_fourier_linear_op example_env ! 1 =
      - complex_of_real (1/1000) * (complex_of_real (2 * pi)) ^ 2"
    by (simp add: example_env_sel)
  have "diffusivity_constant (example_env\<lparr>state := [5, 5, 5, 5]\<rparr>) = diffusivity_constant example_env"
    and "domain_wavenumbers (example_env\<lparr>state := [5, 5, 5, 5]\<rparr>) = domain_wavenumbers example_env"
    by simp_all
  with inst have frame: "compute_fourier_linear_op (example_env\<lparr>state := [5, 5, 5, 5]\<rparr>) =
      compute_fourier_linear_op example_env"
    by blast
  from len entry frame show ?thesis by blast
qed

text \<open>
  C9. For real wavenumbers and a positive diffusivity constant, every entry of the
  linear operator is real and not positive.
\<close>

theorem linear_op_real_nonpositive:
  assumes real_k: "\<forall>k \<in> set (domain_wavenumbers self). k \<in> \<real>"
    and pos_d: "0 < diffusivity_constant self"
  shows "\<forall>z \<in> set (compute_fourier_linear_op self). z \<in> \<real> \<and> Re z \<le> 0"
proof
  fix z
  assume "z \<in> set (compute_fourier_linear_op self)"
  then obtain k where k: "k \<in> set (domain_wavenumbers self)"
    and z: "z = complex_of_real (- diffusivity_constant self) * k ^ 2"
    by (auto simp: compute_fourier_linear_op_def)
  from real_k k obtain r where r: "k = complex_of_real r"
    by (auto elim: Reals_cases)
  have zr: "z = complex_of_real (- diffusivity_constant self * r ^ 2)"
    by (simp add: z r)
  have "- diffusivity_constant self * r ^ 2 \<le> 0"
    using pos_d by (simp add: mult_nonneg_nonneg)
  with zr show "z \<in> \<real> \<and> Re z \<le> 0"
    by (simp del: of_real_mult of_real_minus of_real_power)
qed

theorem linear_op_real_nonpositive_witness:
  "list_all (\<lambda>k. k \<in> \<real>) (domain_wavenumbers example_env) \<and>
   0 < diffusivity_constant example_env \<and>
   length (compute_fourier_linear_op example_env) = 3 \<and>
   list_all (\<lambda>z. z \<in> \<real> \<and> Re z \<le> 0) (compute_fourier_linear_op example_env)"
proof -
  have h1: "\<forall>k \<in> set (domain_wavenumbers example_env). k \<in> \<real>"
    by (simp add: example_env_sel)
  have h2: "0 < diffusivity_constant example_env"
    by (simp add: example_env_sel)
  have len: "length (compute_fourier_linear_op example_env) = 3"
    by (simp add: compute_fourier_linear_op_def example_env_sel)
  have concl: "\<forall>z \<in> set (compute_fourier_linear_op example_env). z \<in> \<real> \<and> Re z \<le> 0"
    by (rule linear_op_real_nonpositive [OF h1 h2])
  from h1 h2 len concl show ?thesis
    unfolding list_all_iff by (intro conjI)
qed

subsection \<open>Facts about the constructor\<close>

lemma extend_fields_sel:
  "init_state (pde.extend base (BurgersEnv.fields a b c d e f)) = a"
  "state (pde.extend base (BurgersEnv.fields a b c d e f)) = b"
  "diffusivity_constant (pde.extend base (BurgersEnv.fields a b c d e f)) = c"
  "control_sup (pde.extend base (BurgersEnv.fields a b c d e f)) = d"
  "C (pde.extend base (BurgersEnv.fields a b c d e f)) = e"
  "C_target_state (pde.extend base (BurgersEnv.fields a b c d e f)) = f"
  "target_state (pde.extend base (BurgersEnv.fields a b c d e f)) = target_state base"
  "n_state (pde.extend base (BurgersEnv.fields a b c d e f)) = n_state base"
  "domain_wavenumbers (pde.extend base (BurgersEnv.fields a b c d e f)) = domain_wavenumbers base"
  by (simp_all add: pde.defs BurgersEnv.defs)

lemma np_matvec_Some:
  "ncols M = length v \<Longrightarrow> \<exists>w. np_matvec M v = Some w"
  by (simp add: np_matvec_def)

lemma BurgersEnv_init_explicit:
  "BurgersEnv_init base ccs cC (Some x) d n g =
     (case np_matvec (cC base) (target_state base) of
        None \<Rightarrow> None
      | Some ct \<Rightarrow> Some (pde.extend base (BurgersEnv.fields x x d (ccs base) (cC base) ct), g))"
  by (simp add: BurgersEnv_init_def Let_def)

lemma BurgersEnv_init_default:
  "BurgersEnv_init base ccs cC None d n g =
     (case np_matvec (cC base) (target_state base) of
        None \<Rightarrow> None
      | Some ct \<Rightarrow>
          Some (pde.extend base
                  (BurgersEnv.fields (map (\<lambda>r. 2 * r - 1) (map g [0..<n]))
                     (map (\<lambda>r. 2 * r - 1) (map g [0..<n])) d (ccs base) (cC base) ct),
                (\<lambda>i. g (i + n))))"
  by (simp add: BurgersEnv_init_def np_random_rand_def Let_def del: map_map)

lemma BurgersEnv_init_cached:
  assumes "BurgersEnv_init base ccs cC arg d n g = Some (self, g')"
  shows "C self = cC base \<and> target_state self = target_state base \<and>
         np_matvec (cC base) (target_state base) = Some (C_target_state self)"
proof (cases arg)
  case None
  with assms show ?thesis
    by (auto simp: BurgersEnv_init_default extend_fields_sel split: option.splits)
next
  case (Some x)
  with assms show ?thesis
    by (auto simp: BurgersEnv_init_explicit extend_fields_sel split: option.splits)
qed

lemma affine_draw_range:
  assumes "rng_ok g"
  shows "list_all (\<lambda>x. - 1 \<le> x \<and> x < 1) (map (\<lambda>r. 2 * r - 1) (map g [0..<n]))"
proof -
  have "- 1 \<le> 2 * g i - 1 \<and> 2 * g i - 1 < 1" for i
    using assms by (simp add: rng_ok_def)
  then show ?thesis
    by (simp add: list_all_iff)
qed

lemma pulse_at_midpoint:
  assumes "domain_length self / 2 \<in> set (domain_coordinates self)"
  shows "1 \<in> set (pulse_init_state self)"
proof -
  have "cosh (10 * (domain_length self / 2 - 1 * domain_length self / 2)) powr (- 1) = 1"
    by simp
  with assms show ?thesis
    unfolding pulse_init_state_def by (metis (mono_tags, lifting) image_eqI list.set_map)
qed

text \<open>
  Without a seeding in between, a second construction draws the samples that follow
  those of the first: the generator state a construction returns has moved on by
  \<open>n_state\<close> samples.
\<close>

lemma BurgersEnv_init_advances_generator:
  assumes "BurgersEnv_init base ccs cC None d n g = Some (self, g')"
  shows "g' = (\<lambda>i. g (i + n)) \<and> init_state self = map (\<lambda>r. 2 * r - 1) (map g [0..<n])"
  using assms by (auto simp: BurgersEnv_init_default extend_fields_sel split: option.splits)

lemma example_construction:
  "BurgersEnv_init example_pde (\<lambda>_. example_control_sup) (\<lambda>_. example_C)
     (Some [1, 0, - 1, 0]) (1/1000) 4 example_rng = Some (example_env, example_rng)"
proof -
  have "np_matvec example_C (target_state example_pde) = Some [0]"
    by (simp add: np_matvec_def example_C_def example_pde_def)
  then show ?thesis
    by (simp add: BurgersEnv_init_explicit example_env_def)
qed

subsection \<open>Initial state\<close>

text \<open>
  C7. An explicitly supplied \<open>init_state\<close> is stored as it is, whatever its length, and the
  state is the initial state. The construction returns when the observation matrix has
  as many columns as the target state has entries, and it draws no random sample.
\<close>

theorem explicit_init_state_verbatim:
  assumes shape: "ncols (compute_C base) = length (target_state base)"
  shows "\<exists>self. BurgersEnv_init base compute_control_sup compute_C (Some x) d n g = Some (self, g) \<and>
           init_state self = x \<and> state self = init_state self"
proof -
  from shape obtain ct where "np_matvec (compute_C base) (target_state base) = Some ct"
    using np_matvec_Some by blast
  then show ?thesis
    by (simp add: BurgersEnv_init_explicit extend_fields_sel)
qed

theorem explicit_init_state_verbatim_witness:
  "ncols (example_C) = length (target_state example_pde) \<and>
   BurgersEnv_init example_pde (\<lambda>_. example_control_sup) (\<lambda>_. example_C)
     (Some [1, 0, - 1, 0]) (1/1000) 4 example_rng = Some (example_env, example_rng) \<and>
   init_state example_env = [1, 0, - 1, 0] \<and> state example_env = init_state example_env"
proof -
  have shape: "ncols ((\<lambda>_. example_C) example_pde) = length (target_state example_pde)"
    by (simp add: example_C_def example_pde_def)
  from explicit_init_state_verbatim [OF shape, of "\<lambda>_. example_control_sup" "[1, 0, - 1, 0]" "1/1000" 4 example_rng]
  obtain self where
    "BurgersEnv_init example_pde (\<lambda>_. example_control_sup) (\<lambda>_. example_C)
       (Some [1, 0, - 1, 0]) (1/1000) 4 example_rng = Some (self, example_rng)"
    and sel: "init_state self = [1, 0, - 1, 0]" "state self = init_state self"
    by blast
  then have "self = example_env"
    by (simp add: example_construction)
  with sel shape show ?thesis
    by (simp add: example_construction)
qed

text \<open>
  C2. When \<open>init_state\<close> is not supplied, the initial state is the draw of
  \<open>np.random.rand(n_state)\<close> mapped by \<open>r \<mapsto> 2 r - 1\<close>: \<open>n_state\<close> entries, each in
  \<open>[-1, 1]\<close> (indeed below 1). The pulse is discarded: the initial state is the same for
  every base object, so for every grid and domain length, that is constructed with the
  same \<open>n_state\<close> from the same generator state; and where the grid holds the midpoint
  of the domain, at which the pulse is 1, the initial state is not the pulse. That the
  samples are uniformly distributed is a property of numpy's generator and is not stated
  here.
\<close>

theorem default_init_state_random:
  assumes gen: "rng_ok g"
    and shape: "ncols (compute_C base) = length (target_state base)"
  shows "\<exists>self g'.
           BurgersEnv_init base compute_control_sup compute_C None d n g = Some (self, g') \<and>
           init_state self = map (\<lambda>r. 2 * r - 1) (fst (np_random_rand n g)) \<and>
           length (init_state self) = n \<and>
           list_all (\<lambda>x. - 1 \<le> x \<and> x \<le> 1) (init_state self) \<and>
           (\<forall>base2 ccs2 cC2 d2 self2 g2.
              BurgersEnv_init base2 ccs2 cC2 None d2 n g = Some (self2, g2) \<longrightarrow>
              init_state self2 = init_state self) \<and>
           (domain_length base / 2 \<in> set (domain_coordinates base) \<longrightarrow>
              init_state self \<noteq> pulse_init_state base)"
proof -
  let ?v = "map (\<lambda>r. 2 * r - 1) (map g [0..<n])"
  from shape obtain ct where ct: "np_matvec (compute_C base) (target_state base) = Some ct"
    using np_matvec_Some by blast
  define self where
    "self = pde.extend base
       (BurgersEnv.fields ?v ?v d (compute_control_sup base) (compute_C base) ct)"
  have run: "BurgersEnv_init base compute_control_sup compute_C None d n g =
      Some (self, (\<lambda>i. g (i + n)))"
    by (simp add: BurgersEnv_init_default ct self_def del: map_map)
  have val: "init_state self = ?v"
    by (simp add: self_def extend_fields_sel del: map_map)
  have draw: "init_state self = map (\<lambda>r. 2 * r - 1) (fst (np_random_rand n g))"
    by (simp add: val np_random_rand_def del: map_map)
  have len: "length (init_state self) = n"
    by (simp add: val)
  have below: "list_all (\<lambda>x. - 1 \<le> x \<and> x < 1) (init_state self)"
    unfolding val by (rule affine_draw_range [OF gen])
  then have range: "list_all (\<lambda>x. - 1 \<le> x \<and> x \<le> 1) (init_state self)"
    by (auto simp: list_all_iff)
  have indep: "\<forall>base2 ccs2 cC2 d2 self2 g2.
      BurgersEnv_init base2 ccs2 cC2 None d2 n g = Some (self2, g2) \<longrightarrow>
      init_state self2 = init_state self"
    using BurgersEnv_init_advances_generator val by metis
  have pulse: "domain_length base / 2 \<in> set (domain_coordinates base) \<longrightarrow>
      init_state self \<noteq> pulse_init_state base"
  proof
    assume "domain_length base / 2 \<in> set (domain_coordinates base)"
    then have "1 \<in> set (pulse_init_state base)"
      by (rule pulse_at_midpoint)
    moreover have "1 \<notin> set (init_state self)"
      using below by (auto simp: list_all_iff)
    ultimately show "init_state self \<noteq> pulse_init_state base"
      by auto
  qed
  from run draw len range indep pulse show ?thesis
    by blast
qed

lemma example_rng_ok: "rng_ok example_rng"
  by (simp add: rng_ok_def example_rng_def)

theorem default_init_state_random_witness:
  "rng_ok example_rng \<and> ncols example_C = length (target_state example_pde) \<and>
   domain_length example_pde / 2 \<in> set (domain_coordinates example_pde) \<and>
   (\<exists>self g'.
      BurgersEnv_init example_pde (\<lambda>_. example_control_sup) (\<lambda>_. example_C)
        None (1/1000) 4 example_rng = Some (self, g') \<and>
      init_state self = [0, - 1/3, - 1/2, - 3/5] \<and>
      init_state self \<noteq> pulse_init_state example_pde)"
proof -
  have shape: "ncols ((\<lambda>_. example_C) example_pde) = length (target_state example_pde)"
    by (simp add: example_C_def example_pde_def)
  have mid: "domain_length example_pde / 2 \<in> set (domain_coordinates example_pde)"
    by (simp add: example_pde_def)
  have upt4: "[0..<4] = [0, 1, 2, 3::nat]"
    by code_simp
  have draw: "map (\<lambda>r. 2 * r - 1) (fst (np_random_rand 4 example_rng)) = [0, - 1/3, - 1/2, - 3/5]"
    by (simp add: np_random_rand_def example_rng_def upt4)
  from default_init_state_random [OF example_rng_ok shape,
      of "\<lambda>_. example_control_sup" "1/1000" 4] mid draw
  have "\<exists>self g'.
      BurgersEnv_init example_pde (\<lambda>_. example_control_sup) (\<lambda>_. example_C)
        None (1/1000) 4 example_rng = Some (self, g') \<and>
      init_state self = [0, - 1/3, - 1/2, - 3/5] \<and>
      init_state self \<noteq> pulse_init_state example_pde"
    by metis
  with example_rng_ok shape mid show ?thesis
    by simp
qed



subsection \<open>The cached projection of the target\<close>

text \<open>
  C3, as the code has it. After a construction that returns, the cached
  \<open>C_target_state\<close> is the product \<open>C @ target_state\<close>. It is computed once: assigning
  a new observation matrix or a new target state to the object leaves the cache as it
  was, so that afterwards the cache is the product of the new operands exactly when
  that product is the old one.
\<close>

theorem C_target_state_cached_at_construction:
  assumes run: "BurgersEnv_init base compute_control_sup compute_C arg d n g = Some (self, g')"
  shows "np_matvec (C self) (target_state self) = Some (C_target_state self) \<and>
         C_target_state (self\<lparr>target_state := t\<rparr>) = C_target_state self \<and>
         C_target_state (self\<lparr>C := M\<rparr>) = C_target_state self \<and>
         (np_matvec (C (self\<lparr>target_state := t\<rparr>)) (target_state (self\<lparr>target_state := t\<rparr>)) =
            Some (C_target_state (self\<lparr>target_state := t\<rparr>))
          \<longleftrightarrow> np_matvec (C self) t = np_matvec (C self) (target_state self)) \<and>
         (np_matvec (C (self\<lparr>C := M\<rparr>)) (target_state (self\<lparr>C := M\<rparr>)) =
            Some (C_target_state (self\<lparr>C := M\<rparr>))
          \<longleftrightarrow> np_matvec M (target_state self) = np_matvec (C self) (target_state self))"
proof -
  from BurgersEnv_init_cached [OF run]
  have cache: "np_matvec (C self) (target_state self) = Some (C_target_state self)"
    by simp
  then show ?thesis
    by simp
qed

theorem C_target_state_cached_at_construction_witness:
  "BurgersEnv_init example_pde (\<lambda>_. example_control_sup) (\<lambda>_. example_C)
     (Some [1, 0, - 1, 0]) (1/1000) 4 example_rng = Some (example_env, example_rng) \<and>
   np_matvec (C example_env) (target_state example_env) = Some (C_target_state example_env) \<and>
   C_target_state (example_env\<lparr>target_state := [0, 1, 0, 0]\<rparr>) = C_target_state example_env"
proof -
  note inst = C_target_state_cached_at_construction [OF example_construction,
      of "[0, 1, 0, 0]" example_C]
  from example_construction inst show ?thesis
    by blast
qed

text \<open>
  C3, as the spec states it, fails: in the example environment, after the target state
  is replaced by \<open>[0, 1, 0, 0]\<close>, the product \<open>C @ target_state\<close> is \<open>[1]\<close> and the cached
  vector is still \<open>[0]\<close>.
\<close>

theorem C_target_state_stale_after_update:
  "BurgersEnv_init example_pde (\<lambda>_. example_control_sup) (\<lambda>_. example_C)
     (Some [1, 0, - 1, 0]) (1/1000) 4 example_rng = Some (example_env, example_rng) \<and>
   np_matvec (C (example_env\<lparr>target_state := [0, 1, 0, 0]\<rparr>))
     (target_state (example_env\<lparr>target_state := [0, 1, 0, 0]\<rparr>)) = Some [1] \<and>
   C_target_state (example_env\<lparr>target_state := [0, 1, 0, 0]\<rparr>) = [0] \<and>
   np_matvec (C (example_env\<lparr>target_state := [0, 1, 0, 0]\<rparr>))
     (target_state (example_env\<lparr>target_state := [0, 1, 0, 0]\<rparr>))
     \<noteq> Some (C_target_state (example_env\<lparr>target_state := [0, 1, 0, 0]\<rparr>))"
proof -
  have c: "C example_env = example_C"
    by (simp add: example_env_def extend_fields_sel)
  have ct: "C_target_state example_env = [0]"
    by (simp add: example_env_def extend_fields_sel)
  have prod: "np_matvec example_C [0, 1, 0, 0] = Some [1]"
    by (simp add: np_matvec_def example_C_def lessThan_Suc eval_nat_numeral)
  from c ct prod example_construction show ?thesis
    by simp
qed

subsection \<open>The parameter dictionary\<close>

text \<open>
  C8. The exported dictionary has the keys of the base class's dictionary and the key
  \<open>diffusivity_constant\<close>, which is mapped to the object's diffusivity constant; every
  other key has the value the base class gave it. When the base class's dictionary has
  no key \<open>diffusivity_constant\<close>, every entry of it is in the result unchanged and the
  new key is the one additional key.
\<close>

theorem get_params_asdict_extends:
  "dom (get_params_asdict super_get self) = dom (super_get self) \<union> {''diffusivity_constant''} \<and>
   get_params_asdict super_get self ''diffusivity_constant'' = Some (PyFloat (diffusivity_constant self)) \<and>
   (\<forall>k. k \<noteq> ''diffusivity_constant'' \<longrightarrow> get_params_asdict super_get self k = super_get self k) \<and>
   (''diffusivity_constant'' \<notin> dom (super_get self) \<longrightarrow>
      super_get self \<subseteq>\<^sub>m get_params_asdict super_get self \<and>
      dom (get_params_asdict super_get self) - dom (super_get self) = {''diffusivity_constant''})"
proof -
  let ?key = "''diffusivity_constant''"
  have keys: "dom (get_params_asdict super_get self) = dom (super_get self) \<union> {?key}"
    by (auto simp: get_params_asdict_def)
  have new: "get_params_asdict super_get self ?key = Some (PyFloat (diffusivity_constant self))"
    by (simp add: get_params_asdict_def)
  have old: "\<forall>k. k \<noteq> ?key \<longrightarrow> get_params_asdict super_get self k = super_get self k"
    by (simp add: get_params_asdict_def map_add_def)
  have fresh: "?key \<notin> dom (super_get self) \<longrightarrow>
      super_get self \<subseteq>\<^sub>m get_params_asdict super_get self \<and>
      dom (get_params_asdict super_get self) - dom (super_get self) = {?key}"
  proof
    assume absent: "?key \<notin> dom (super_get self)"
    have "super_get self \<subseteq>\<^sub>m get_params_asdict super_get self"
      unfolding map_le_def using old absent by metis
    moreover have "dom (get_params_asdict super_get self) - dom (super_get self) = {?key}"
      using keys absent by blast
    ultimately show "super_get self \<subseteq>\<^sub>m get_params_asdict super_get self \<and>
      dom (get_params_asdict super_get self) - dom (super_get self) = {?key}"
      by simp
  qed
  from keys new old fresh show ?thesis
    by blast
qed

theorem get_params_asdict_extends_witness:
  "''diffusivity_constant'' \<notin> dom example_pde_dict \<and>
   dom (get_params_asdict (\<lambda>_. example_pde_dict) example_env) =
     {''id'', ''n_state'', ''diffusivity_constant''} \<and>
   get_params_asdict (\<lambda>_. example_pde_dict) example_env ''diffusivity_constant'' = Some (PyFloat (1/1000)) \<and>
   get_params_asdict (\<lambda>_. example_pde_dict) example_env ''n_state'' = Some (PyInt 4) \<and>
   dom (get_params_asdict (\<lambda>_. example_pde_dict) example_env) - dom example_pde_dict =
     {''diffusivity_constant''}"
proof -
  note inst = get_params_asdict_extends [of "\<lambda>_. example_pde_dict" example_env]
  have absent: "''diffusivity_constant'' \<notin> dom example_pde_dict"
    by (simp add: example_pde_dict_def)
  have d: "dom example_pde_dict = {''id'', ''n_state''}"
    by (auto simp: example_pde_dict_def)
  have keys: "dom (get_params_asdict (\<lambda>_. example_pde_dict) example_env) =
      {''id'', ''n_state'', ''diffusivity_constant''}"
    using inst d by auto
  have new: "get_params_asdict (\<lambda>_. example_pde_dict) example_env ''diffusivity_constant'' =
      Some (PyFloat (1/1000))"
    using inst by (simp add: example_env_sel)
  have "get_params_asdict (\<lambda>_. example_pde_dict) example_env ''n_state'' = example_pde_dict ''n_state''"
    using inst by simp
  then have old: "get_params_asdict (\<lambda>_. example_pde_dict) example_env ''n_state'' = Some (PyInt 4)"
    by (simp add: example_pde_dict_def)
  have diff: "dom (get_params_asdict (\<lambda>_. example_pde_dict) example_env) - dom example_pde_dict =
      {''diffusivity_constant''}"
    using inst absent by blast
  from absent keys new old diff show ?thesis
    by blast
qed

subsection \<open>The nonlinear operator\<close>

lemma grid_size: "nat \<lfloor>real n * aa_factor\<rfloor> = 3 * n div 2"
proof -
  have "real n * aa_factor = real (3 * n) / real 2"
    by (simp add: aa_factor_def)
  then have "\<lfloor>real n * aa_factor\<rfloor> = int (3 * n div 2)"
    by (simp only: floor_divide_of_nat_eq)
  then show ?thesis by simp
qed

lemma grid_size_spec: "nat \<lfloor>3 / 2 * real n\<rfloor> = 3 * n div 2"
  using grid_size [of n] by (simp add: aa_factor_def mult.commute)

lemma retained_modes: "nat \<lfloor>real n / 2\<rfloor> = n div 2"
proof -
  have "real n / 2 = real n / real 2" by simp
  then have "\<lfloor>real n / 2\<rfloor> = int (n div 2)"
    by (simp only: floor_divide_of_nat_eq)
  then show ?thesis by simp
qed

lemma length_rfft_values [simp]: "length (rfft_values x) = length x div 2 + 1"
  by (simp add: rfft_values_def)

lemma length_irfft_values [simp]: "length (irfft_values a n) = n"
  by (simp add: irfft_values_def)

lemma modes_le_oversampled: "(n::nat) div 2 \<le> (3 * n div 2) div 2"
  by presburger

lemma length_spec_advection:
  assumes "length wavenumber = n div 2 + 1"
  shows "length (spec_advection n wavenumber s) = n div 2 + 1"
  unfolding spec_advection_def Let_def grid_size_spec
  using assms modes_le_oversampled [of n] by simp

lemma length_spec_control_forcing [simp]:
  "length (spec_control_forcing B a) = length (rows B) div 2 + 1"
  by (simp add: spec_control_forcing_def Let_def)

lemma np_broadcast_same_length:
  "length xs = length ys \<Longrightarrow> np_broadcast f xs ys = Some (map2 f xs ys)"
  by (simp add: np_broadcast_def)

lemma advection_as_spec:
  "map2 (*) (map (\<lambda>k. (- (0.5 * \<i>) * k) * complex_of_real (1 / aa_factor)) wavenumber)
     (take (n div 2 + 1)
        (rfft_values (map (\<lambda>v. v ^ 2) (map (\<lambda>v. aa_factor * v) (irfft_values s (3 * n div 2))))))
   = spec_advection n wavenumber s"
proof -
  have squared: "map (\<lambda>v. v ^ 2) (map (\<lambda>v. aa_factor * v) (irfft_values s (3 * n div 2))) =
      map (\<lambda>x. x * x) (map (\<lambda>x. 3 / 2 * x) (irfft_values s (3 * n div 2)))"
    by (simp add: aa_factor_def power2_eq_square)
  show ?thesis
    unfolding spec_advection_def Let_def grid_size_spec squared
    by (simp add: zip_map1 zip_map2 comp_def case_prod_beta aa_factor_def)
qed

lemma forcing_as_spec:
  assumes "ncols B = length action"
  shows "map (\<lambda>row. \<Sum>i<length (map complex_of_real action). row ! i * map complex_of_real action ! i)
           (map (\<lambda>k. map (\<lambda>c. rfft_values (column B c) ! k) [0..<ncols B])
              [0..<length (rows B) div 2 + 1])
         = spec_control_forcing B action"
  unfolding spec_control_forcing_def Let_def
  using assms by (auto intro!: sum.cong)

lemma fourier_nonlinear_op_value:
  assumes n: "0 < n_state self"
    and W: "length (domain_wavenumbers self) = n_state self div 2 + 1"
    and B: "is_mat (n_state self) (length action) (control_sup self)"
  shows "fourier_nonlinear_op self state_fourier action =
           Some (spec_nonlinear_op (n_state self) (domain_wavenumbers self) (control_sup self)
                   state_fourier action)"
proof -
  let ?n = "n_state self"
  let ?B = "control_sup self"
  let ?squared = "map (\<lambda>v. v ^ 2) (map (\<lambda>v. aa_factor * v) (irfft_values state_fourier (3 * ?n div 2)))"
  let ?factor = "map (\<lambda>k. (- (0.5 * \<i>) * k) * complex_of_real (1 / aa_factor)) (domain_wavenumbers self)"
  let ?F = "\<lparr>ncols = ncols ?B,
             rows = map (\<lambda>k. map (\<lambda>c. rfft_values (column ?B c) ! k) [0..<ncols ?B])
                      [0..<length (rows ?B) div 2 + 1]\<rparr>"
  from B have rowsB: "length (rows ?B) = ?n" and colsB: "ncols ?B = length action"
    by (simp_all add: is_mat_def)
  from n have grid: "\<not> 3 * ?n div 2 < 1"
    by presburger
  have inv: "np_fft_irfft state_fourier (nat \<lfloor>real ?n * aa_factor\<rfloor>) =
      Some (irfft_values state_fourier (3 * ?n div 2))"
    using grid by (simp add: np_fft_irfft_def grid_size)
  have fwd: "np_fft_rfft ?squared = Some (rfft_values ?squared)"
    using grid by (simp add: np_fft_rfft_def)
  have len_take: "length (take (?n div 2 + 1) (rfft_values ?squared)) = ?n div 2 + 1"
    using modes_le_oversampled [of ?n] by simp
  have adv: "np_broadcast (*) ?factor (take (nat \<lfloor>real ?n / 2\<rfloor> + 1) (rfft_values ?squared)) =
      Some (spec_advection ?n (domain_wavenumbers self) state_fourier)"
  proof -
    have "length ?factor = length (take (?n div 2 + 1) (rfft_values ?squared))"
      using W len_take by simp
    then have "np_broadcast (*) ?factor (take (?n div 2 + 1) (rfft_values ?squared)) =
        Some (map2 (*) ?factor (take (?n div 2 + 1) (rfft_values ?squared)))"
      by (rule np_broadcast_same_length)
    then show ?thesis
      by (simp only: retained_modes advection_as_spec)
  qed
  have cols: "np_fft_rfft_axis0 ?B = Some ?F"
    using n rowsB by (simp add: np_fft_rfft_axis0_def)
  have forc: "np_matvec ?F (map complex_of_real action) = Some (spec_control_forcing ?B action)"
  proof -
    have "np_matvec ?F (map complex_of_real action) =
        Some (map (\<lambda>row. \<Sum>i<length (map complex_of_real action).
                      row ! i * map complex_of_real action ! i) (rows ?F))"
      using colsB by (simp add: np_matvec_def)
    then show ?thesis
      using forcing_as_spec [OF colsB] by simp
  qed
  have total: "np_broadcast (+) (spec_advection ?n (domain_wavenumbers self) state_fourier)
      (spec_control_forcing ?B action) =
      Some (spec_nonlinear_op ?n (domain_wavenumbers self) ?B state_fourier action)"
  proof -
    have "length (spec_advection ?n (domain_wavenumbers self) state_fourier) =
        length (spec_control_forcing ?B action)"
      using length_spec_advection [OF W] rowsB by simp
    then show ?thesis
      unfolding spec_nonlinear_op_def by (rule np_broadcast_same_length)
  qed
  show ?thesis
    unfolding fourier_nonlinear_op_def
    by (simp only: inv fwd adv cols forc total bind.bind_lunit Let_def)
qed





text \<open>
  C1. For a spectral state and an action of the instance's dimensions (at least one grid
  point, \<open>n_state div 2 + 1\<close> wavenumbers, a control support matrix of \<open>n_state\<close> rows
  and one column for each entry of the action), the operator raises nothing and
  returns the sum of the advection term and the control-forcing term as the
  specification describes them (\<open>spec_advection\<close>, \<open>spec_control_forcing\<close>). The length of
  the spectral state plays no part: \<open>irfft\<close> crops or pads it.
\<close>

theorem nonlinear_op_advection_plus_forcing:
  assumes "0 < n_state self"
    and "length (domain_wavenumbers self) = n_state self div 2 + 1"
    and "is_mat (n_state self) (length action) (control_sup self)"
  shows "fourier_nonlinear_op self state_fourier action =
           Some (map2 (+)
                   (spec_advection (n_state self) (domain_wavenumbers self) state_fourier)
                   (spec_control_forcing (control_sup self) action))"
  using fourier_nonlinear_op_value [OF assms] by (simp add: spec_nonlinear_op_def)

lemma example_env_shape:
  "0 < n_state example_env"
  "length (domain_wavenumbers example_env) = n_state example_env div 2 + 1"
  "is_mat (n_state example_env) 2 (control_sup example_env)"
  by (simp_all add: example_env_sel is_mat_def example_control_sup_def)

theorem nonlinear_op_advection_plus_forcing_witness:
  "0 < n_state example_env \<and>
   length (domain_wavenumbers example_env) = n_state example_env div 2 + 1 \<and>
   is_mat (n_state example_env) (length [1, 2 :: real]) (control_sup example_env) \<and>
   fourier_nonlinear_op example_env [1, \<i>, 0] [1, 2] =
     Some (map2 (+)
             (spec_advection 4 [0, complex_of_real (2 * pi), complex_of_real (4 * pi)] [1, \<i>, 0])
             (spec_control_forcing example_control_sup [1, 2]))"
proof -
  have len: "length [1, 2 :: real] = 2"
    by simp
  have shape: "is_mat (n_state example_env) (length [1, 2 :: real]) (control_sup example_env)"
    unfolding len by (rule example_env_shape(3))
  from nonlinear_op_advection_plus_forcing [OF example_env_shape(1) example_env_shape(2) shape,
      of "[1, \<i>, 0]"]
  have "fourier_nonlinear_op example_env [1, \<i>, 0] [1, 2] =
     Some (map2 (+)
             (spec_advection 4 [0, complex_of_real (2 * pi), complex_of_real (4 * pi)] [1, \<i>, 0])
             (spec_control_forcing example_control_sup [1, 2]))"
    by (simp only: example_env_sel)
  with example_env_shape(1) example_env_shape(2) shape show ?thesis
    by blast
qed

text \<open>
  C10. For an instance of these dimensions the operator returns a vector of exactly
  \<open>n_state div 2 + 1\<close> entries.
\<close>

theorem nonlinear_op_length:
  assumes "0 < n_state self"
    and "length (domain_wavenumbers self) = n_state self div 2 + 1"
    and "is_mat (n_state self) (length action) (control_sup self)"
  shows "\<exists>rhs. fourier_nonlinear_op self state_fourier action = Some rhs \<and>
           length rhs = n_state self div 2 + 1"
proof -
  from assms(3) have "length (rows (control_sup self)) = n_state self"
    by (simp add: is_mat_def)
  then have "length (spec_nonlinear_op (n_state self) (domain_wavenumbers self)
      (control_sup self) state_fourier action) = n_state self div 2 + 1"
    using length_spec_advection [OF assms(2)] by (simp add: spec_nonlinear_op_def)
  with fourier_nonlinear_op_value [OF assms] show ?thesis
    by simp
qed

theorem nonlinear_op_length_witness:
  "0 < n_state example_env \<and>
   length (domain_wavenumbers example_env) = n_state example_env div 2 + 1 \<and>
   is_mat (n_state example_env) (length [1, 2 :: real]) (control_sup example_env) \<and>
   (\<exists>rhs. fourier_nonlinear_op example_env [1, \<i>, 0] [1, 2] = Some rhs \<and> length rhs = 3)"
proof -
  have len: "length [1, 2 :: real] = 2"
    by simp
  have shape: "is_mat (n_state example_env) (length [1, 2 :: real]) (control_sup example_env)"
    unfolding len by (rule example_env_shape(3))
  from nonlinear_op_length [OF example_env_shape(1) example_env_shape(2) shape, of "[1, \<i>, 0]"]
  have "\<exists>rhs. fourier_nonlinear_op example_env [1, \<i>, 0] [1, 2] = Some rhs \<and> length rhs = 3"
    by (simp add: example_env_sel)
  with example_env_shape(1) example_env_shape(2) shape show ?thesis
    by blast
qed



end
